theory Spec2Isabelle
  imports Main "HOL-Library.Sublist"
begin

section \<open>Python strings\<close>

text \<open>
  Strings are \<^typ>\<open>string\<close>, that is lists of 8-bit characters. The configuration
  values of the generator are treated as ASCII text: \<open>lower\<close>, \<open>upper\<close> and \<open>title\<close>
  below change the 26 ASCII letters only.
\<close>

datatype py_error = KeyError | IndexError | ValueError | FormatError

definition on_ok :: "('a \<Rightarrow> 'b) \<Rightarrow> py_error + 'a \<Rightarrow> py_error + 'b" where
  "on_ok f r = (case r of Inl e \<Rightarrow> Inl e | Inr x \<Rightarrow> Inr (f x))"

text \<open>\<open>sub in s\<close> on strings: \<open>sub\<close> occurs somewhere in \<open>s\<close>.\<close>

fun py_in :: "string \<Rightarrow> string \<Rightarrow> bool" where
  "py_in sub [] = (sub = [])"
| "py_in sub (c # cs) = (prefix sub (c # cs) \<or> py_in sub cs)"

text \<open>
  \<open>s.replace(old, new)\<close>: every non-overlapping occurrence of \<open>old\<close>, found from
  the left, is replaced. With an empty \<open>old\<close> Python puts \<open>new\<close> before every
  character and at the end.
\<close>

function replace_from :: "string \<Rightarrow> string \<Rightarrow> string \<Rightarrow> string" where
  "replace_from old new [] = []"
| "replace_from old new (c # cs) =
     (if old \<noteq> [] \<and> prefix old (c # cs)
      then new @ replace_from old new (drop (length old) (c # cs))
      else c # replace_from old new cs)"
  by pat_completeness auto
termination
  by (relation "measure (\<lambda>(old, new, s). length s)") auto

definition py_replace :: "string \<Rightarrow> string \<Rightarrow> string \<Rightarrow> string" where
  "py_replace old new s =
     (if old = [] then new @ concat (map (\<lambda>c. c # new) s) else replace_from old new s)"

text \<open>
  \<open>s.split(sep)\<close> for a separator string. Python raises \<open>ValueError\<close> on an empty
  separator; \<open>split_from\<close> carries the piece read so far.
\<close>

function split_from :: "string \<Rightarrow> string \<Rightarrow> string \<Rightarrow> string list" where
  "split_from sep cur [] = [cur]"
| "split_from sep cur (c # cs) =
     (if sep \<noteq> [] \<and> prefix sep (c # cs)
      then cur # split_from sep [] (drop (length sep) (c # cs))
      else split_from sep (cur @ [c]) cs)"
  by pat_completeness auto
termination
  by (relation "measure (\<lambda>(sep, cur, s). length s)") auto

definition py_split :: "string \<Rightarrow> string \<Rightarrow> py_error + string list" where
  "py_split sep s = (if sep = [] then Inl ValueError else Inr (split_from sep [] s))"

text \<open>\<open>xs[i]\<close> for a non-negative index: \<open>IndexError\<close> out of range.\<close>

definition py_index :: "'a list \<Rightarrow> nat \<Rightarrow> py_error + 'a" where
  "py_index xs i = (if i < length xs then Inr (xs ! i) else Inl IndexError)"

text \<open>\<open>sep.join(xs)\<close>.\<close>

fun py_join :: "string \<Rightarrow> string list \<Rightarrow> string" where
  "py_join sep [] = []"
| "py_join sep [x] = x"
| "py_join sep (x # y # ys) = x @ sep @ py_join sep (y # ys)"

definition lower_char :: "char \<Rightarrow> char" where
  "lower_char c =
     (case map_of (zip ''ABCDEFGHIJKLMNOPQRSTUVWXYZ'' ''abcdefghijklmnopqrstuvwxyz'') c of
        Some d \<Rightarrow> d | None \<Rightarrow> c)"

definition upper_char :: "char \<Rightarrow> char" where
  "upper_char c =
     (case map_of (zip ''abcdefghijklmnopqrstuvwxyz'' ''ABCDEFGHIJKLMNOPQRSTUVWXYZ'') c of
        Some d \<Rightarrow> d | None \<Rightarrow> c)"

definition is_cased :: "char \<Rightarrow> bool" where
  "is_cased c = (c \<in> set ''abcdefghijklmnopqrstuvwxyzABCDEFGHIJKLMNOPQRSTUVWXYZ'')"

definition py_lower :: "string \<Rightarrow> string" where
  "py_lower s = map lower_char s"

text \<open>
  \<open>s.title()\<close>: a letter that follows a letter is lowercased, any other letter is
  uppercased. The flag says whether the previous character was a letter.
\<close>

fun title_from :: "bool \<Rightarrow> string \<Rightarrow> string" where
  "title_from prev [] = []"
| "title_from prev (c # cs) =
     (if is_cased c
      then (if prev then lower_char c else upper_char c) # title_from True cs
      else c # title_from False cs)"

definition py_title :: "string \<Rightarrow> string" where
  "py_title s = title_from False s"

text \<open>
  \<open>template.format(collection_name=v)\<close>. \<open>{{\<close> and \<open>}}\<close> are literal braces, the
  replacement field \<open>{collection_name}\<close> is replaced by \<open>v\<close> (which is not scanned
  again), a brace that is neither doubled nor part of a field is a \<open>ValueError\<close>. The
  only keyword argument the generator passes is \<open>collection_name\<close>: every other
  replacement field (another name, a position, a conversion or a format
  specification) is reported as \<open>FormatError\<close>.
\<close>

function py_format :: "string \<Rightarrow> string \<Rightarrow> py_error + string" where
  "py_format [] v = Inr []"
| "py_format (c # cs) v =
     (if c = CHR ''{'' then
        (if cs \<noteq> [] \<and> hd cs = CHR ''{'' then on_ok ((#) CHR ''{'') (py_format (tl cs) v)
         else if dropWhile (\<lambda>d. d \<noteq> CHR ''}'') cs = [] then Inl ValueError
         else if takeWhile (\<lambda>d. d \<noteq> CHR ''}'') cs = ''collection_name''
           then on_ok ((@) v) (py_format (tl (dropWhile (\<lambda>d. d \<noteq> CHR ''}'') cs)) v)
         else Inl FormatError)
      else if c = CHR ''}'' then
        (if cs \<noteq> [] \<and> hd cs = CHR ''}'' then on_ok ((#) CHR ''}'') (py_format (tl cs) v)
         else Inl ValueError)
      else on_ok ((#) c) (py_format cs v))"
  by pat_completeness auto
termination
proof (relation "measure (\<lambda>(t, v). length t)")
  show "wf (measure (\<lambda>(t, v). length t))" by simp
next
  fix c :: char and cs v :: string
  assume "cs \<noteq> [] \<and> hd cs = CHR ''{''"
  then show "((tl cs, v), c # cs, v) \<in> measure (\<lambda>(t, v). length t)" by simp
next
  fix c :: char and cs v :: string
  have "length (dropWhile (\<lambda>d. d \<noteq> CHR ''}'') cs) \<le> length cs"
    by (rule length_dropWhile_le)
  then show "((tl (dropWhile (\<lambda>d. d \<noteq> CHR ''}'') cs), v), c # cs, v)
      \<in> measure (\<lambda>(t, v). length t)" by simp
next
  fix c :: char and cs v :: string
  assume "cs \<noteq> [] \<and> hd cs = CHR ''}''"
  then show "((tl cs, v), c # cs, v) \<in> measure (\<lambda>(t, v). length t)" by simp
next
  fix c :: char and cs v :: string
  show "((cs, v), c # cs, v) \<in> measure (\<lambda>(t, v). length t)" by simp
qed

text \<open>Formatting every template of a list, stopping at the first error.\<close>

fun format_all :: "string list \<Rightarrow> string \<Rightarrow> py_error + string list" where
  "format_all [] v = Inr []"
| "format_all (t # ts) v =
     (case py_format t v of
        Inl e \<Rightarrow> Inl e
      | Inr s \<Rightarrow> on_ok ((#) s) (format_all ts v))"

section \<open>Rule tables\<close>

text \<open>The dictionaries of \<^verbatim>\<open>query_types.py\<close>, as association lists in the
  order in which the source writes the keys.\<close>

record requirement_template =
  t_statement :: string
  t_parts :: "string list"

definition QUERY_TYPE_REQUIREMENTS :: "(string \<times> requirement_template) list" where
  "QUERY_TYPE_REQUIREMENTS = [
    (''items'', \<lparr>t_statement = ''{collection_name} items query support'',
       t_parts = [
          ''The service SHALL provide a /collections/{collection_name}/items endpoint'',
          ''The Items query SHALL return GeoJSON FeatureCollection formatted data'',
          ''The Items query SHALL support GET method'',
          ''Each Feature SHALL contain the required properties defined in the profile'',
          ''The service SHALL provide a /collections/{collection_name}/items/{{featureId}} endpoint for individual items'']\<rparr>),
    (''position'', \<lparr>t_statement = ''{collection_name} position query support'',
       t_parts = [
          ''The service SHALL provide a /collections/{collection_name}/position endpoint'',
          ''The Position query SHALL accept coords parameter with POINT geometry'',
          ''The Position query SHALL support datetime parameter'',
          ''The response SHALL return data for the specified position'']\<rparr>),
    (''area'', \<lparr>t_statement = ''{collection_name} area query support'',
       t_parts = [
          ''The service SHALL provide a /collections/{collection_name}/area endpoint'',
          ''The Area query SHALL accept coords parameter with POLYGON or MULTIPOLYGON geometry'',
          ''The Area query SHALL support datetime parameter'',
          ''The response SHALL return data within the specified area'']\<rparr>),
    (''cube'', \<lparr>t_statement = ''{collection_name} cube query support'',
       t_parts = [
          ''The service SHALL provide a /collections/{collection_name}/cube endpoint'',
          ''The Cube query SHALL accept bbox parameter'',
          ''The Cube query SHALL support datetime and z parameters'',
          ''The response SHALL return data within the specified cube'']\<rparr>),
    (''trajectory'', \<lparr>t_statement = ''{collection_name} trajectory query support'',
       t_parts = [
          ''The service SHALL provide a /collections/{collection_name}/trajectory endpoint'',
          ''The Trajectory query SHALL accept coords parameter with LINESTRING geometry'',
          ''The Trajectory query SHALL support datetime parameter'',
          ''The response SHALL return data along the specified trajectory'']\<rparr>),
    (''corridor'', \<lparr>t_statement = ''{collection_name} corridor query support'',
       t_parts = [
          ''The service SHALL provide a /collections/{collection_name}/corridor endpoint'',
          ''The Corridor query SHALL accept coords and corridor-width parameters'',
          ''The Corridor query SHALL support datetime parameter'',
          ''The response SHALL return data within the specified corridor'']\<rparr>),
    (''locations'', \<lparr>t_statement = ''{collection_name} locations query support'',
       t_parts = [
          ''The service SHALL provide a /collections/{collection_name}/locations endpoint'',
          ''The Locations query SHALL accept locationId parameter'',
          ''The Locations query SHALL support datetime parameter'',
          ''The response SHALL return data for the specified location'']\<rparr>),
    (''instances'', \<lparr>t_statement = ''{collection_name} instances query support'',
       t_parts = [
          ''The service SHALL provide a /collections/{collection_name}/instances endpoint'',
          ''The Instances endpoint SHALL list available time instances'',
          ''Each instance SHALL support the same query types as the collection'']\<rparr>)]"

definition QUERY_TYPE_TEST_STEPS :: "(string \<times> string list) list" where
  "QUERY_TYPE_TEST_STEPS = [
    (''items'', [
       ''Send GET request to /collections/{collection_name}/items'',
       ''Verify response is valid GeoJSON FeatureCollection'',
       ''Verify response contains required properties'',
       ''Send GET request to /collections/{collection_name}/items/{{featureId}}'',
       ''Verify response is valid GeoJSON Feature'']),
    (''position'', [
       ''Send GET request to /collections/{collection_name}/position with coords parameter'',
       ''Verify response contains data for the specified position'',
       ''Verify datetime parameter is supported'']),
    (''area'', [
       ''Send GET request to /collections/{collection_name}/area with coords parameter'',
       ''Verify response contains data within the specified area'',
       ''Verify POLYGON and MULTIPOLYGON geometries are supported'']),
    (''cube'', [
       ''Send GET request to /collections/{collection_name}/cube with bbox parameter'',
       ''Verify response contains data within the specified cube'',
       ''Verify datetime and z parameters are supported'']),
    (''trajectory'', [
       ''Send GET request to /collections/{collection_name}/trajectory with coords parameter'',
       ''Verify response contains data along the trajectory'',
       ''Verify LINESTRING geometry is supported'']),
    (''corridor'', [
       ''Send GET request to /collections/{collection_name}/corridor with coords and corridor-width parameters'',
       ''Verify response contains data within the corridor'',
       ''Verify datetime parameter is supported'']),
    (''locations'', [
       ''Send GET request to /collections/{collection_name}/locations'',
       ''Verify response lists available locations'',
       ''Send GET request to /collections/{collection_name}/locations/{{locationId}}'',
       ''Verify response contains data for the specified location'']),
    (''instances'', [
       ''Send GET request to /collections/{collection_name}/instances'',
       ''Verify response lists available time instances'',
       ''Verify each instance supports the collection's query types''])]"

definition FORMAT_REQUIREMENTS :: "(string \<times> string list) list" where
  "FORMAT_REQUIREMENTS = [
    (''geojson'', [
       ''A format with the label json SHALL provide GeoJSON output'',
       ''The GeoJSON output SHALL include standard GeoJSON properties: type, features, geometry, properties, and id'',
       ''The GeoJSON output SHALL include pagination metadata: numberMatched, numberReturned, and links array'']),
    (''coveragejson'', [
       ''A format with the label covjson SHALL provide CoverageJSON output conforming to the CoverageJSON specification'']),
    (''csv'', [
       ''A format with the label csv SHALL provide CSV output with appropriate headers'']),
    (''netcdf'', [
       ''A format with the label netcdf SHALL provide NetCDF output conforming to CF conventions'']),
    (''grib'', [
       ''A format with the label grib SHALL provide GRIB2 output conforming to WMO GRIB2 specification'']),
    (''grib2'', [
       ''A format with the label grib SHALL provide GRIB2 output conforming to WMO GRIB2 specification'']),
    (''zarr'', [
       ''A format with the label zarr SHALL provide Zarr output conforming to Zarr specification''])]"

definition QUERY_TYPE_KEYS :: "string list" where
  "QUERY_TYPE_KEYS = map fst QUERY_TYPE_TEST_STEPS"

section \<open>Data model\<close>

record collection =
  name :: string
  query_types :: "string list"
  formats :: "string list"

record filter_spec =
  f_name :: string
  f_description :: string
  f_type :: string

record requirement =
  id_r :: string
  statement :: string
  parts :: "string list"

record abstract_test =
  id_t :: string
  req_id :: string
  steps :: "string list"

section \<open>Requirement generation\<close>

text \<open>
  \<open>generate_query_type_requirement\<close>: \<open>None\<close> when the query type has no entry in
  \<open>QUERY_TYPE_REQUIREMENTS\<close> (every entry is a non-empty dictionary, so
  \<open>not template\<close> holds for a missing key only).
\<close>

definition generate_query_type_requirement ::
    "string \<Rightarrow> string \<Rightarrow> py_error + requirement option" where
  "generate_query_type_requirement collection_name query_type =
     (case map_of QUERY_TYPE_REQUIREMENTS query_type of
        None \<Rightarrow> Inr None
      | Some template \<Rightarrow>
          (case py_format (t_statement template) collection_name of
             Inl e \<Rightarrow> Inl e
           | Inr stmt \<Rightarrow>
               (case format_all (t_parts template) collection_name of
                  Inl e \<Rightarrow> Inl e
                | Inr ps \<Rightarrow>
                    Inr (Some \<lparr>id_r = ''data-query-'' @ query_type @ ''-''
                                   @ py_replace ''_'' ''-'' collection_name,
                               statement = stmt, parts = ps\<rparr>))))"

text \<open>The loop over \<open>formats\<close> in \<open>generate_format_requirement\<close>, with the list
  \<open>format_parts\<close> it extends.\<close>

fun format_parts_loop :: "string list \<Rightarrow> string list \<Rightarrow> string list" where
  "format_parts_loop [] format_parts = format_parts"
| "format_parts_loop (fmt # fmts) format_parts =
     (let fmt_lower = py_lower fmt in
      case map_of FORMAT_REQUIREMENTS fmt_lower of
        Some clauses \<Rightarrow> format_parts_loop fmts (format_parts @ clauses)
      | None \<Rightarrow>
          format_parts_loop fmts
            (format_parts @ [''A format with the label '' @ fmt_lower @ '' SHALL be supported'']))"

definition generate_format_requirement :: "string \<Rightarrow> string list \<Rightarrow> requirement" where
  "generate_format_requirement collection_name fmts =
     \<lparr>id_r = ''output-format-'' @ py_replace ''_'' ''-'' collection_name,
      statement = ''Output format support for '' @ collection_name,
      parts = format_parts_loop fmts
        [''Collection '' @ collection_name @ '' SHALL support the following formats:'']\<rparr>"

definition openapi_requirement :: requirement where
  "openapi_requirement =
     \<lparr>id_r = ''openapi'',
      statement = ''OpenAPI specification'',
      parts = [
        ''The service SHALL provide an OpenAPI 3.0 specification'',
        ''The OpenAPI SHALL document all collection endpoints'',
        ''The OpenAPI SHALL include GeoJSON schemas'']\<rparr>"

definition collection_requirement :: "collection \<Rightarrow> requirement" where
  "collection_requirement coll =
     \<lparr>id_r = ''collection-'' @ py_replace ''_'' ''-'' (name coll),
      statement = name coll @ '' collection metadata'',
      parts = [
        ''The service SHALL provide a /collections/'' @ name coll @ '' endpoint'',
        ''The endpoint SHALL return collection metadata including extent and available query types'',
        ''The response SHALL conform to OGC API - EDR collection schema'']\<rparr>"

definition asyncapi_requirement :: "collection \<Rightarrow> requirement" where
  "asyncapi_requirement coll =
     \<lparr>id_r = ''asyncapi-'' @ py_replace ''_'' ''-'' (name coll),
      statement = ''AsyncAPI specification and PubSub messaging for '' @ name coll,
      parts = [
        ''The service SHALL provide an AsyncAPI 3.0 specification'',
        ''The AsyncAPI SHALL define '' @ name coll @ '' notification channels'',
        ''The service SHALL support AMQP protocol'',
        ''The service SHALL publish messages to collections/'' @ name coll @ ''/items/# channel'',
        ''Messages SHALL conform to the AsyncAPI schema'']\<rparr>"

definition filters_requirement :: "filter_spec list \<Rightarrow> requirement" where
  "filters_requirement filters =
     \<lparr>id_r = ''filters'',
      statement = ''Filter support'',
      parts = [
        ''The service SHALL support subscription filters'',
        ''The service SHALL support filtering by '' @ py_join '', '' (map f_name filters),
        ''Filters SHALL be defined in x-ogc-subscription extension'']\<rparr>"

text \<open>The four loops of \<open>generate_suggested_requirements\<close>, each passing on the list
  \<open>requirements\<close> it appends to.\<close>

fun collection_loop :: "collection list \<Rightarrow> requirement list \<Rightarrow> requirement list" where
  "collection_loop [] requirements = requirements"
| "collection_loop (coll # colls) requirements =
     collection_loop colls (requirements @ [collection_requirement coll])"

fun query_type_inner_loop ::
    "string \<Rightarrow> string list \<Rightarrow> requirement list \<Rightarrow> py_error + requirement list" where
  "query_type_inner_loop cname [] requirements = Inr requirements"
| "query_type_inner_loop cname (qt # qts) requirements =
     (case generate_query_type_requirement cname qt of
        Inl e \<Rightarrow> Inl e
      | Inr None \<Rightarrow> query_type_inner_loop cname qts requirements
      | Inr (Some req) \<Rightarrow> query_type_inner_loop cname qts (requirements @ [req]))"

fun query_type_loop ::
    "collection list \<Rightarrow> requirement list \<Rightarrow> py_error + requirement list" where
  "query_type_loop [] requirements = Inr requirements"
| "query_type_loop (coll # colls) requirements =
     (case query_type_inner_loop (name coll) (query_types coll) requirements of
        Inl e \<Rightarrow> Inl e
      | Inr requirements' \<Rightarrow> query_type_loop colls requirements')"

fun format_loop :: "collection list \<Rightarrow> requirement list \<Rightarrow> requirement list" where
  "format_loop [] requirements = requirements"
| "format_loop (coll # colls) requirements =
     format_loop colls
       (requirements @ [generate_format_requirement (name coll) (formats coll)])"

fun asyncapi_loop :: "collection list \<Rightarrow> requirement list \<Rightarrow> requirement list" where
  "asyncapi_loop [] requirements = requirements"
| "asyncapi_loop (coll # colls) requirements =
     asyncapi_loop colls (requirements @ [asyncapi_requirement coll])"

definition generate_suggested_requirements ::
    "collection list \<Rightarrow> bool \<Rightarrow> filter_spec list \<Rightarrow> py_error + requirement list" where
  "generate_suggested_requirements collections include_asyncapi filters =
     (case query_type_loop collections (collection_loop collections [openapi_requirement]) of
        Inl e \<Rightarrow> Inl e
      | Inr requirements \<Rightarrow>
          (let requirements = format_loop collections requirements;
               requirements = (if include_asyncapi
                               then asyncapi_loop collections requirements
                               else requirements);
               requirements = (if filters \<noteq> []
                               then requirements @ [filters_requirement filters]
                               else requirements)
           in Inr requirements))"

section \<open>Test generation\<close>

definition generate_query_type_test ::
    "string \<Rightarrow> string \<Rightarrow> string \<Rightarrow> py_error + abstract_test" where
  "generate_query_type_test collection_name query_type rid =
     (let steps_template =
            (case map_of QUERY_TYPE_TEST_STEPS query_type of
               Some t \<Rightarrow> t
             | None \<Rightarrow> [
                 ''Verify '' @ query_type @ '' query is implemented'',
                 ''Test basic functionality'',
                 ''Verify conformance''])
      in case format_all steps_template collection_name of
           Inl e \<Rightarrow> Inl e
         | Inr ss \<Rightarrow> Inr \<lparr>id_t = rid, req_id = rid, steps = ss\<rparr>)"

definition test_templates :: "(string \<times> string list) list" where
  "test_templates = [
    (''openapi'', [
       ''Send GET request to /openapi'',
       ''Verify response is valid OpenAPI 3.0 document'',
       ''Verify all collection endpoints are documented'',
       ''Verify GeoJSON schemas are defined'']),
    (''asyncapi'', [
       ''Send GET request to /asyncapi.yaml'',
       ''Verify response is valid AsyncAPI 3.0 document'',
       ''Verify channels are defined for notifications'',
       ''Verify AMQP server is configured'',
       ''Connect to AMQP broker'',
       ''Subscribe to notification channel'',
       ''Verify messages are received'',
       ''Verify messages conform to AsyncAPI schema'']),
    (''filters'', [
       ''Verify x-ogc-subscription extension exists in AsyncAPI'',
       ''Verify all filters are documented'',
       ''Create subscription with filter'',
       ''Verify only matching messages are received''])]"

text \<open>
  The inner \<open>for qt in QUERY_TYPE_TEST_STEPS.keys()\<close> of \<open>generate_suggested_tests\<close>:
  \<open>Some test\<close> when the loop leaves through \<open>break\<close>, \<open>None\<close> when it runs to its
  end, which is when the \<open>else\<close> branch of the loop is taken.
\<close>

fun query_type_scan :: "string list \<Rightarrow> requirement \<Rightarrow> py_error + abstract_test option" where
  "query_type_scan [] req = Inr None"
| "query_type_scan (qt # qts) req =
     (if py_in (''data-query-'' @ qt @ ''-'') (id_r req) then
        (case py_split (''data-query-'' @ qt @ ''-'') (id_r req) of
           Inl e \<Rightarrow> Inl e
         | Inr pieces \<Rightarrow>
             (case py_index pieces 1 of
                Inl e \<Rightarrow> Inl e
              | Inr piece \<Rightarrow>
                  on_ok Some
                    (generate_query_type_test (py_replace ''-'' ''_'' piece) qt (id_r req))))
      else query_type_scan qts req)"

text \<open>The \<open>else\<close> branch: the fixed steps of \<open>test_templates\<close>, or three default steps.\<close>

definition template_test :: "requirement \<Rightarrow> py_error + abstract_test" where
  "template_test req =
     (case (if py_in ''-'' (id_r req)
            then (case py_split ''-'' (id_r req) of
                    Inl e \<Rightarrow> Inl e
                  | Inr pieces \<Rightarrow> py_index pieces 0)
            else Inr (id_r req)) of
        Inl e \<Rightarrow> Inl e
      | Inr base_id \<Rightarrow>
          Inr \<lparr>id_t = id_r req, req_id = id_r req,
               steps = (case map_of test_templates base_id of
                          Some ss \<Rightarrow> ss
                        | None \<Rightarrow> [
                            ''Verify requirement '' @ id_r req @ '' is implemented'',
                            ''Test basic functionality'',
                            ''Verify conformance''])\<rparr>)"

definition test_for :: "requirement \<Rightarrow> py_error + abstract_test" where
  "test_for req =
     (case query_type_scan QUERY_TYPE_KEYS req of
        Inl e \<Rightarrow> Inl e
      | Inr (Some t) \<Rightarrow> Inr t
      | Inr None \<Rightarrow> template_test req)"

fun tests_loop :: "requirement list \<Rightarrow> abstract_test list \<Rightarrow> py_error + abstract_test list" where
  "tests_loop [] tests = Inr tests"
| "tests_loop (req # reqs) tests =
     (case test_for req of
        Inl e \<Rightarrow> Inl e
      | Inr t \<Rightarrow> tests_loop reqs (tests @ [t]))"

definition generate_suggested_tests :: "requirement list \<Rightarrow> py_error + abstract_test list" where
  "generate_suggested_tests requirements = tests_loop requirements []"

text \<open>Names for what the statements below speak about: the clauses one format label
  expands to, the requirements one collection's query types expand to, and whether a
  query type is a key of \<open>QUERY_TYPE_REQUIREMENTS\<close>.\<close>

definition label_clauses :: "string \<Rightarrow> string list" where
  "label_clauses fmt =
     (case map_of FORMAT_REQUIREMENTS (py_lower fmt) of
        Some clauses \<Rightarrow> clauses
      | None \<Rightarrow> [''A format with the label '' @ py_lower fmt @ '' SHALL be supported''])"

definition recognized :: "string \<Rightarrow> bool" where
  "recognized qt = (map_of QUERY_TYPE_REQUIREMENTS qt \<noteq> None)"

definition query_type_requirements :: "string \<Rightarrow> string list \<Rightarrow> requirement list" where
  "query_type_requirements cname qts =
     concat (map (\<lambda>qt. case generate_query_type_requirement cname qt of
                          Inr (Some req) \<Rightarrow> [req]
                        | _ \<Rightarrow> []) qts)"

definition ids_distinct :: "requirement list \<Rightarrow> bool" where
  "ids_distinct reqs = distinct (map id_r reqs)"

definition dashed :: "collection \<Rightarrow> string" where
  "dashed coll = py_replace ''_'' ''-'' (name coll)"

definition query_ids :: "collection \<Rightarrow> string list" where
  "query_ids coll =
     map (\<lambda>qt. ''data-query-'' @ qt @ ''-'' @ dashed coll)
       (filter recognized (query_types coll))"

section \<open>Requirement, test and class files\<close>











section \<open>Configuration as loaded\<close>

text \<open>
  A collection mapping of a configuration file: any of its keys may be absent, and
  reading an absent key raises \<open>KeyError\<close>.
\<close>

record config_collection =
  c_name :: "string option"
  c_query_types :: "string list option"
  c_formats :: "string list option"

definition field :: "'a option \<Rightarrow> py_error + 'a" where
  "field v = (case v of None \<Rightarrow> Inl KeyError | Some x \<Rightarrow> Inr x)"

text \<open>\<open>d[k] = v\<close> on a dictionary that keeps insertion order: an existing key keeps its
  place, a new key goes to the end.\<close>

fun dict_set :: "'k \<Rightarrow> 'v \<Rightarrow> ('k \<times> 'v) list \<Rightarrow> ('k \<times> 'v) list" where
  "dict_set k v [] = [(k, v)]"
| "dict_set k v (p # ps) = (if fst p = k then (k, v) # ps else p # dict_set k v ps)"

section \<open>OpenAPI generation\<close>

text \<open>
  A parameter object (\<open>p_required\<close> says whether the key \<open>required\<close> is written, always
  with the value \<open>True\<close>; the schema type is always \<open>string\<close>), the \<open>get\<close> operation of a
  path item (an operation without the key \<open>parameters\<close> has the empty list), and the
  feature schema of a collection: its property names, each of type string, and the
  pub/sub extension as its key and channel when it is written.
\<close>

record parameter =
  p_name :: string
  p_in :: string
  p_required :: bool

record path_item =
  summary :: string
  parameters :: "parameter list"
  response_200 :: string

record feature_schema =
  s_properties :: "string list"
  s_pubsub :: "(string \<times> string) option"

record openapi_spec =
  o_title :: string
  o_description :: string
  o_paths :: "(string \<times> path_item) list"
  o_schemas :: "(string \<times> feature_schema) list"

text \<open>The path items that \<open>create_openapi\<close> writes for a collection.\<close>

definition metadata_item :: "string \<Rightarrow> path_item" where
  "metadata_item collection_name =
     \<lparr>summary = ''Get '' @ collection_name @ '' metadata'',
      parameters = [],
      response_200 = ''Collection metadata''\<rparr>"

definition items_item :: "string \<Rightarrow> path_item" where
  "items_item collection_name =
     \<lparr>summary = ''Query '' @ collection_name @ '' items'',
      parameters = [\<lparr>p_name = ''datetime'', p_in = ''query'', p_required = False\<rparr>,
                    \<lparr>p_name = ''bbox'', p_in = ''query'', p_required = False\<rparr>],
      response_200 = ''GeoJSON FeatureCollection''\<rparr>"

definition feature_item :: "string \<Rightarrow> path_item" where
  "feature_item collection_name =
     \<lparr>summary = ''Get specific '' @ collection_name @ '' item'',
      parameters = [\<lparr>p_name = ''featureId'', p_in = ''path'', p_required = True\<rparr>],
      response_200 = ''GeoJSON Feature''\<rparr>"

definition locations_item :: "string \<Rightarrow> path_item" where
  "locations_item collection_name =
     \<lparr>summary = ''Get available locations for '' @ collection_name,
      parameters = [],
      response_200 = ''GeoJSON FeatureCollection of available locations''\<rparr>"

definition location_item :: "string \<Rightarrow> path_item" where
  "location_item collection_name =
     \<lparr>summary = ''Query '' @ collection_name @ '' data by location'',
      parameters = [\<lparr>p_name = ''locationId'', p_in = ''path'', p_required = True\<rparr>,
                    \<lparr>p_name = ''datetime'', p_in = ''query'', p_required = False\<rparr>],
      response_200 = ''Query results''\<rparr>"

definition query_item :: "string \<Rightarrow> string \<Rightarrow> path_item" where
  "query_item collection_name qt =
     \<lparr>summary = ''Query '' @ collection_name @ '' by '' @ qt,
      parameters = [\<lparr>p_name = ''coords'', p_in = ''query'', p_required = True\<rparr>,
                    \<lparr>p_name = ''datetime'', p_in = ''query'', p_required = False\<rparr>],
      response_200 = ''Query results''\<rparr>"

text \<open>The body of the loop over the query types of one collection, on the
  dictionary \<open>paths\<close>, and the loop.\<close>

definition add_query_type ::
    "string \<Rightarrow> string \<Rightarrow> (string \<times> path_item) list \<Rightarrow> (string \<times> path_item) list" where
  "add_query_type collection_name qt paths =
     (if qt = ''items'' then
        dict_set (''/collections/'' @ collection_name @ ''/items/{featureId}'')
          (feature_item collection_name)
          (dict_set (''/collections/'' @ collection_name @ ''/items'')
             (items_item collection_name) paths)
      else if qt = ''locations'' then
        dict_set (''/collections/'' @ collection_name @ ''/locations/{locationId}'')
          (location_item collection_name)
          (dict_set (''/collections/'' @ collection_name @ ''/locations'')
             (locations_item collection_name) paths)
      else
        dict_set (''/collections/'' @ collection_name @ ''/'' @ qt)
          (query_item collection_name qt) paths)"

fun query_type_paths ::
    "string \<Rightarrow> string list \<Rightarrow> (string \<times> path_item) list \<Rightarrow> (string \<times> path_item) list" where
  "query_type_paths collection_name [] paths = paths"
| "query_type_paths collection_name (qt # qts) paths =
     query_type_paths collection_name qts (add_query_type collection_name qt paths)"

text \<open>The dictionary comprehension over \<open>properties\<close>: a repeated name is one key.\<close>

fun property_keys :: "string list \<Rightarrow> (string \<times> string) list \<Rightarrow> (string \<times> string) list" where
  "property_keys [] d = d"
| "property_keys (prop # props) d = property_keys props (dict_set prop ''string'' d)"

definition collection_schema :: "string \<Rightarrow> string list \<Rightarrow> bool \<Rightarrow> string \<Rightarrow> feature_schema" where
  "collection_schema base_name props include_asyncapi collection_name =
     \<lparr>s_properties = map fst (property_keys props []),
      s_pubsub = (if include_asyncapi
                  then Some (''x-ogc-edr-'' @ base_name @ ''-pubsub'',
                             collection_name @ ''_notifications'')
                  else None)\<rparr>"

text \<open>The body of the loop over the collections, on the dictionaries \<open>paths\<close> and
  \<open>schemas\<close>, and the loop.\<close>

definition add_collection ::
    "string \<Rightarrow> string list \<Rightarrow> bool \<Rightarrow> config_collection
      \<Rightarrow> (string \<times> path_item) list \<times> (string \<times> feature_schema) list
      \<Rightarrow> py_error + (string \<times> path_item) list \<times> (string \<times> feature_schema) list" where
  "add_collection base_name props include_asyncapi coll ps =
     (case field (c_name coll) of
        Inl e \<Rightarrow> Inl e
      | Inr collection_name \<Rightarrow>
          (case field (c_query_types coll) of
             Inl e \<Rightarrow> Inl e
           | Inr qts \<Rightarrow>
               Inr (query_type_paths collection_name qts
                      (dict_set (''/collections/'' @ collection_name)
                         (metadata_item collection_name) (fst ps)),
                    dict_set (py_replace ''_'' [] (py_title collection_name) @ ''Feature'')
                      (collection_schema base_name props include_asyncapi collection_name)
                      (snd ps))))"

fun openapi_loop ::
    "string \<Rightarrow> string list \<Rightarrow> bool \<Rightarrow> config_collection list
      \<Rightarrow> (string \<times> path_item) list \<times> (string \<times> feature_schema) list
      \<Rightarrow> py_error + (string \<times> path_item) list \<times> (string \<times> feature_schema) list" where
  "openapi_loop base_name props include_asyncapi [] ps = Inr ps"
| "openapi_loop base_name props include_asyncapi (coll # colls) ps =
     (case add_collection base_name props include_asyncapi coll ps of
        Inl e \<Rightarrow> Inl e
      | Inr ps' \<Rightarrow> openapi_loop base_name props include_asyncapi colls ps')"

text \<open>\<open>create_openapi\<close>: the document that is written to \<open>openapi.yaml\<close>; nothing is
  written when the loop raises.\<close>

definition create_openapi ::
    "string \<Rightarrow> config_collection list \<Rightarrow> string list \<Rightarrow> bool \<Rightarrow> py_error + openapi_spec" where
  "create_openapi base_name colls props include_asyncapi =
     (case openapi_loop base_name props include_asyncapi colls ([], []) of
        Inl e \<Rightarrow> Inl e
      | Inr (paths, schemas) \<Rightarrow>
          Inr \<lparr>o_title = py_title (py_replace ''_'' '' '' base_name) @ '' Profile API'',
               o_description = ''OGC API - EDR ''
                 @ py_title (py_replace ''_'' '' '' base_name) @ '' Profile'',
               o_paths = paths,
               o_schemas = schemas\<rparr>)"

section \<open>AsyncAPI generation\<close>








section \<open>Documentation and supporting files\<close>




section \<open>The generation run\<close>












section \<open>Observations on the results\<close>

text \<open>What the statements below read off a generated document, an anchor or a run.\<close>

definition path_keys :: "openapi_spec \<Rightarrow> string list" where
  "path_keys spec = map fst (o_paths spec)"

definition path_count :: "openapi_spec \<Rightarrow> nat" where
  "path_count spec = length (o_paths spec)"

definition schema_keys :: "openapi_spec \<Rightarrow> string list" where
  "schema_keys spec = map fst (o_schemas spec)"







section \<open>Properties\<close>

subsection \<open>Auxiliary facts\<close>

lemma on_ok_Inr [simp]: "on_ok f (Inr x) = Inr (f x)" by (simp add: on_ok_def)
lemma on_ok_Inl [simp]: "on_ok f (Inl e) = Inl e" by (simp add: on_ok_def)

lemma test_steps_format:
  "map_of QUERY_TYPE_TEST_STEPS qt = Some ts \<Longrightarrow>
     \<exists>ss. format_all ts v = Inr ss \<and> length ss = length ts"
  unfolding QUERY_TYPE_TEST_STEPS_def
  by (auto split: if_splits)

lemma split_from_nonempty: "split_from sep cur s \<noteq> []"
  by (induction sep cur s rule: split_from.induct) auto

lemma split_from_two:
  "sep \<noteq> [] \<Longrightarrow> py_in sep s \<Longrightarrow> 2 \<le> length (split_from sep cur s)"
proof (induction sep cur s rule: split_from.induct)
  case (1 sep cur)
  then show ?case by simp
next
  case (2 sep cur c cs)
  show ?case
  proof (cases "prefix sep (c # cs)")
    case True
    have "split_from sep [] (drop (length sep) (c # cs)) \<noteq> []"
      by (rule split_from_nonempty)
    then have "1 \<le> length (split_from sep [] (drop (length sep) (c # cs)))"
      by (cases "split_from sep [] (drop (length sep) (c # cs))") auto
    with True 2(3) show ?thesis by simp
  next
    case False
    with 2 show ?thesis by simp
  qed
qed

lemma key_has_steps:
  "qt \<in> set QUERY_TYPE_KEYS \<Longrightarrow> \<exists>ts. map_of QUERY_TYPE_TEST_STEPS qt = Some ts"
  unfolding QUERY_TYPE_KEYS_def
  by (metis (no_types) domD dom_map_of_conv_image_fst set_map)

lemma generate_query_type_test_key:
  assumes "qt \<in> set QUERY_TYPE_KEYS"
  shows "\<exists>t. generate_query_type_test cn qt rid = Inr t \<and> id_t t = rid \<and> req_id t = rid"
proof -
  from assms obtain ts where ts: "map_of QUERY_TYPE_TEST_STEPS qt = Some ts"
    using key_has_steps by blast
  from test_steps_format [OF ts, of cn] obtain ss where "format_all ts cn = Inr ss"
    by blast
  with ts show ?thesis by (simp add: generate_query_type_test_def)
qed

lemma query_type_scan_ok:
  "set qts \<subseteq> set QUERY_TYPE_KEYS \<Longrightarrow>
     query_type_scan qts req = Inr None \<or>
     (\<exists>t. query_type_scan qts req = Inr (Some t) \<and> id_t t = id_r req \<and> req_id t = id_r req)"
proof (induction qts)
  case Nil
  then show ?case by simp
next
  case (Cons qt qts)
  let ?sep = "''data-query-'' @ qt @ ''-''"
  show ?case
  proof (cases "py_in ?sep (id_r req)")
    case True
    have sep: "?sep \<noteq> []" by simp
    from split_from_two [OF sep True, of "[]"]
    have len: "1 < length (split_from ?sep [] (id_r req))" by simp
    from Cons.prems have "qt \<in> set QUERY_TYPE_KEYS" by simp
    from generate_query_type_test_key [OF this]
    obtain t where "generate_query_type_test
        (py_replace ''-'' ''_'' (split_from ?sep [] (id_r req) ! 1)) qt (id_r req) = Inr t"
      and "id_t t = id_r req" and "req_id t = id_r req" by blast
    with True len show ?thesis
      by (simp add: py_split_def py_index_def)
  next
    case False
    with Cons show ?thesis by simp
  qed
qed

lemma template_test_ok:
  "\<exists>t. template_test req = Inr t \<and> id_t t = id_r req \<and> req_id t = id_r req"
proof -
  have "split_from ''-'' [] (id_r req) \<noteq> []" by (rule split_from_nonempty)
  then have "0 < length (split_from ''-'' [] (id_r req))" by simp
  then show ?thesis
    by (simp add: template_test_def py_split_def py_index_def)
qed

lemma test_for_ok:
  "\<exists>t. test_for req = Inr t \<and> id_t t = id_r req \<and> req_id t = id_r req"
proof -
  have "set QUERY_TYPE_KEYS \<subseteq> set QUERY_TYPE_KEYS" by simp
  from query_type_scan_ok [OF this, of req] template_test_ok [of req]
  show ?thesis by (auto simp: test_for_def)
qed

lemma tests_loop_ok:
  "\<exists>ts. tests_loop reqs acc = Inr (acc @ ts) \<and> map test_for reqs = map Inr ts
      \<and> map id_t ts = map id_r reqs \<and> map req_id ts = map id_r reqs"
proof (induction reqs arbitrary: acc)
  case Nil
  then show ?case by simp
next
  case (Cons req reqs)
  from test_for_ok [of req] obtain t where t: "test_for req = Inr t"
    "id_t t = id_r req" "req_id t = id_r req" by blast
  from Cons.IH [of "acc @ [t]"] obtain ts where
    "tests_loop reqs (acc @ [t]) = Inr ((acc @ [t]) @ ts)" "map test_for reqs = map Inr ts"
    "map id_t ts = map id_r reqs" "map req_id ts = map id_r reqs" by blast
  with t have "tests_loop (req # reqs) acc = Inr (acc @ (t # ts)) \<and>
      map test_for (req # reqs) = map Inr (t # ts) \<and>
      map id_t (t # ts) = map id_r (req # reqs) \<and> map req_id (t # ts) = map id_r (req # reqs)"
    by simp
  then show ?case by blast
qed

lemma requirement_templates_format:
  "map_of QUERY_TYPE_REQUIREMENTS qt = Some t \<Longrightarrow>
     \<exists>s ps. py_format (t_statement t) v = Inr s \<and> format_all (t_parts t) v = Inr ps"
  unfolding QUERY_TYPE_REQUIREMENTS_def
  by (auto split: if_splits)

lemma generate_query_type_requirement_unrecognized:
  "\<not> recognized qt \<Longrightarrow> generate_query_type_requirement cn qt = Inr None"
  by (simp add: recognized_def generate_query_type_requirement_def)

lemma generate_query_type_requirement_recognized:
  assumes "recognized qt"
  shows "\<exists>r. generate_query_type_requirement cn qt = Inr (Some r)
            \<and> id_r r = ''data-query-'' @ qt @ ''-'' @ py_replace ''_'' ''-'' cn"
proof -
  from assms obtain t where t: "map_of QUERY_TYPE_REQUIREMENTS qt = Some t"
    by (auto simp: recognized_def)
  from requirement_templates_format [OF t, of cn] obtain s ps where
    "py_format (t_statement t) cn = Inr s" "format_all (t_parts t) cn = Inr ps" by blast
  with t show ?thesis by (simp add: generate_query_type_requirement_def)
qed

lemma generate_query_type_requirement_total:
  "\<exists>r. generate_query_type_requirement cn qt = Inr r"
  using generate_query_type_requirement_unrecognized [of qt cn]
    generate_query_type_requirement_recognized [of qt cn]
  by (cases "recognized qt") auto

lemma query_type_requirements_Cons:
  "query_type_requirements cn (qt # qts) =
     (case generate_query_type_requirement cn qt of Inr (Some r) \<Rightarrow> [r] | _ \<Rightarrow> [])
     @ query_type_requirements cn qts"
  by (simp add: query_type_requirements_def)

lemma query_type_inner_loop_eq:
  "query_type_inner_loop cn qts acc = Inr (acc @ query_type_requirements cn qts)"
proof (induction qts arbitrary: acc)
  case Nil
  show ?case by (simp add: query_type_requirements_def)
next
  case (Cons qt qts)
  from generate_query_type_requirement_total [of cn qt]
  obtain r where r: "generate_query_type_requirement cn qt = Inr r" by blast
  show ?case
    by (cases r) (simp_all add: r Cons.IH query_type_requirements_Cons)
qed

lemma query_type_loop_eq:
  "query_type_loop colls acc =
     Inr (acc @ concat (map (\<lambda>c. query_type_requirements (name c) (query_types c)) colls))"
  by (induction colls arbitrary: acc) (simp_all add: query_type_inner_loop_eq)

lemma collection_loop_eq:
  "collection_loop colls acc = acc @ map collection_requirement colls"
  by (induction colls arbitrary: acc) simp_all

lemma format_loop_eq:
  "format_loop colls acc =
     acc @ map (\<lambda>c. generate_format_requirement (name c) (formats c)) colls"
  by (induction colls arbitrary: acc) simp_all

lemma asyncapi_loop_eq:
  "asyncapi_loop colls acc = acc @ map asyncapi_requirement colls"
  by (induction colls arbitrary: acc) simp_all

lemma generate_suggested_requirements_eq:
  "generate_suggested_requirements colls a fs =
     Inr (openapi_requirement # map collection_requirement colls
          @ concat (map (\<lambda>c. query_type_requirements (name c) (query_types c)) colls)
          @ map (\<lambda>c. generate_format_requirement (name c) (formats c)) colls
          @ (if a then map asyncapi_requirement colls else [])
          @ (if fs \<noteq> [] then [filters_requirement fs] else []))"
  by (simp add: generate_suggested_requirements_def query_type_loop_eq collection_loop_eq
      format_loop_eq asyncapi_loop_eq Let_def)

lemma format_parts_loop_eq:
  "format_parts_loop fmts acc = acc @ concat (map label_clauses fmts)"
  by (induction fmts arbitrary: acc) (simp_all add: label_clauses_def Let_def split: option.splits)

subsection \<open>Test generation is total and order preserving\<close>

text \<open>
  Claim C1. For every requirement list, \<open>generate_suggested_tests\<close> returns (it raises
  nothing) exactly one test per requirement, in the order of the requirements: the
  test at each position is the test of the requirement at that position, its id is
  the id of that requirement, and its \<open>req_id\<close> equals its id. No requirement is
  skipped, whatever its id looks like.
\<close>

theorem generate_suggested_tests_one_per_requirement:
  "\<exists>tests. generate_suggested_tests requirements = Inr tests
     \<and> length tests = length requirements
     \<and> map test_for requirements = map Inr tests
     \<and> map id_t tests = map id_r requirements
     \<and> map req_id tests = map id_t tests"
proof -
  from tests_loop_ok [of requirements "[]"] obtain ts where
    ts: "tests_loop requirements [] = Inr ts" "map test_for requirements = map Inr ts"
    "map id_t ts = map id_r requirements" "map req_id ts = map id_r requirements" by auto
  from ts(3) have len: "length ts = length requirements" by (rule map_eq_imp_length_eq)
  from ts(3,4) have same: "map req_id ts = map id_t ts" by simp
  from ts(1,2,3) len same show ?thesis
    unfolding generate_suggested_tests_def by blast
qed

lemma py_replace_char:
  "py_replace [a] [b] s = map (\<lambda>c. if c = a then b else c) s"
proof -
  have "replace_from [a] [b] s = map (\<lambda>c. if c = a then b else c) s"
    by (induction s) auto
  then show ?thesis by (simp add: py_replace_def)
qed

subsection \<open>The water gauge profile\<close>

text \<open>
  Claim C2. For the single collection \<open>water_gauge\<close> with query types \<open>items\<close> and
  \<open>position\<close> and format \<open>GeoJSON\<close>, without the event API and without filters,
  requirement generation returns the ids \<open>openapi\<close>, \<open>collection-water-gauge\<close>,
  \<open>data-query-items-water-gauge\<close>, \<open>data-query-position-water-gauge\<close>,
  \<open>output-format-water-gauge\<close> in this order, and test generation over that list
  returns a test with 5 steps for the items requirement and a test with 3 steps for
  the position requirement. (The profile name is no input of either function.)
\<close>

theorem water_gauge_example:
  "\<exists>rs ts.
     generate_suggested_requirements
       [\<lparr>name = ''water_gauge'', query_types = [''items'', ''position''],
         formats = [''GeoJSON'']\<rparr>] False [] = Inr rs
     \<and> map id_r rs = [''openapi'', ''collection-water-gauge'', ''data-query-items-water-gauge'',
          ''data-query-position-water-gauge'', ''output-format-water-gauge'']
     \<and> generate_suggested_tests rs = Inr ts
     \<and> map (\<lambda>t. (id_t t, length (steps t))) ts =
         [(''openapi'', 4), (''collection-water-gauge'', 3),
          (''data-query-items-water-gauge'', 5), (''data-query-position-water-gauge'', 3),
          (''output-format-water-gauge'', 3)]"
  by (simp add: generate_suggested_requirements_eq query_type_requirements_def
      generate_query_type_requirement_def QUERY_TYPE_REQUIREMENTS_def
      openapi_requirement_def collection_requirement_def generate_format_requirement_def
      py_replace_char generate_suggested_tests_def test_for_def QUERY_TYPE_KEYS_def
      QUERY_TYPE_TEST_STEPS_def template_test_def test_templates_def py_split_def
      py_index_def generate_query_type_test_def)



lemma label_clauses_nonempty: "label_clauses fmt \<noteq> []"
  unfolding label_clauses_def FORMAT_REQUIREMENTS_def
  by (simp split: option.splits)

lemma format_requirement_parts:
  "parts (generate_format_requirement cn fmts) =
     (''Collection '' @ cn @ '' SHALL support the following formats:'')
       # concat (map label_clauses fmts)"
  by (simp add: generate_format_requirement_def format_parts_loop_eq)

lemma format_requirement_in_synthesis:
  "\<exists>pre post. generate_suggested_requirements (cs1 @ c # cs2) a fs
       = Inr (pre @ generate_format_requirement (name c) (formats c) # post)
     \<and> length post = length cs2 + (if a then length cs1 + 1 + length cs2 else 0)
         + (if fs = [] then 0 else 1)"
proof -
  let ?cs = "cs1 @ c # cs2"
  let ?pre = "openapi_requirement # map collection_requirement ?cs
      @ concat (map (\<lambda>c. query_type_requirements (name c) (query_types c)) ?cs)
      @ map (\<lambda>c. generate_format_requirement (name c) (formats c)) cs1"
  let ?post = "map (\<lambda>c. generate_format_requirement (name c) (formats c)) cs2
      @ (if a then map asyncapi_requirement ?cs else [])
      @ (if fs \<noteq> [] then [filters_requirement fs] else [])"
  have "generate_suggested_requirements ?cs a fs
      = Inr (?pre @ generate_format_requirement (name c) (formats c) # ?post)"
    by (simp add: generate_suggested_requirements_eq)
  moreover have "length ?post = length cs2 + (if a then length cs1 + 1 + length cs2 else 0)
         + (if fs = [] then 0 else 1)" by simp
  ultimately show ?thesis by blast
qed

subsection \<open>Unrecognized query types\<close>



subsection \<open>The output format requirement\<close>

text \<open>
  Claim C10. For every collection name and format list, the parts of the requirement
  returned by \<open>generate_format_requirement\<close> are the header clause followed by the
  clauses of the labels in their order; for the empty format list they are the header
  alone, so the parts are never empty; requirement generation emits the requirement
  also for a collection that declares no formats; and for a label whose lowercase
  form is no key of \<open>FORMAT_REQUIREMENTS\<close> the fallback clause names the lowercase
  form of the label.
\<close>

theorem format_requirement_header_first:
  "parts (generate_format_requirement cn fmts) =
     (''Collection '' @ cn @ '' SHALL support the following formats:'')
       # concat (map label_clauses fmts)
   \<and> parts (generate_format_requirement cn []) =
       [''Collection '' @ cn @ '' SHALL support the following formats:'']
   \<and> parts (generate_format_requirement cn fmts) \<noteq> []
   \<and> (\<exists>pre post. generate_suggested_requirements (cs1 @ c\<lparr>formats := []\<rparr> # cs2) a fs
         = Inr (pre @ generate_format_requirement (name c) [] # post))
   \<and> (map_of FORMAT_REQUIREMENTS (py_lower fmt) = None \<longrightarrow>
        parts (generate_format_requirement cn [fmt]) =
          [''Collection '' @ cn @ '' SHALL support the following formats:'',
           ''A format with the label '' @ py_lower fmt @ '' SHALL be supported''])"
proof -
  from format_requirement_in_synthesis [of cs1 "c\<lparr>formats := []\<rparr>" cs2 a fs]
  have "\<exists>pre post. generate_suggested_requirements (cs1 @ c\<lparr>formats := []\<rparr> # cs2) a fs
         = Inr (pre @ generate_format_requirement (name c) [] # post)"
    by auto
  then show ?thesis
    by (simp add: format_requirement_parts label_clauses_def)
qed

theorem format_requirement_header_first_witness:
  "map_of FORMAT_REQUIREMENTS (py_lower ''XML'') = None
   \<and> parts (generate_format_requirement ''water_gauge'' [''XML'']) =
       [''Collection water_gauge SHALL support the following formats:'',
        ''A format with the label xml SHALL be supported'']"
proof -
  have h: "map_of FORMAT_REQUIREMENTS (py_lower ''XML'') = None"
    by (simp add: FORMAT_REQUIREMENTS_def py_lower_def lower_char_def)
  have l: "py_lower ''XML'' = ''xml''" by (simp add: py_lower_def lower_char_def)
  from format_requirement_header_first [of "''water_gauge''" "[]" "[]"
      "\<lparr>name = ''water_gauge'', query_types = [], formats = []\<rparr>" "[]" False "[]" "''XML''"]
  show ?thesis using h l by simp
qed

lemma recognized_iff:
  "recognized qt \<longleftrightarrow> qt \<in> {''items'', ''position'', ''area'', ''cube'', ''trajectory'',
      ''corridor'', ''locations'', ''instances''}"
  by (simp add: recognized_def QUERY_TYPE_REQUIREMENTS_def)

lemma query_type_dash_inj:
  "recognized q \<Longrightarrow> recognized q' \<Longrightarrow> q @ ''-'' @ x = q' @ ''-'' @ y \<Longrightarrow> q = q' \<and> x = y"
  by (auto simp: recognized_iff)

lemma query_type_requirement_ids:
  "map id_r (query_type_requirements cn qts) =
     map (\<lambda>qt. ''data-query-'' @ qt @ ''-'' @ py_replace ''_'' ''-'' cn) (filter recognized qts)"
proof (induction qts)
  case Nil
  show ?case by (simp add: query_type_requirements_def)
next
  case (Cons qt qts)
  show ?case
  proof (cases "recognized qt")
    case True
    from generate_query_type_requirement_recognized [OF True, of cn] obtain r where
      "generate_query_type_requirement cn qt = Inr (Some r)"
      "id_r r = ''data-query-'' @ qt @ ''-'' @ py_replace ''_'' ''-'' cn" by blast
    with True Cons.IH show ?thesis by (simp add: query_type_requirements_Cons)
  next
    case False
    from generate_query_type_requirement_unrecognized [OF False, of cn] False Cons.IH
    show ?thesis by (simp add: query_type_requirements_Cons)
  qed
qed

lemma query_ids_eq:
  "map id_r (query_type_requirements (name c) (query_types c)) = query_ids c"
  unfolding query_type_requirement_ids query_ids_def dashed_def ..

lemma requirement_ids_eq:
  "on_ok (map id_r) (generate_suggested_requirements colls a fs) =
     Inr (''openapi'' # map (\<lambda>c. ''collection-'' @ dashed c) colls
          @ concat (map query_ids colls)
          @ map (\<lambda>c. ''output-format-'' @ dashed c) colls
          @ (if a then map (\<lambda>c. ''asyncapi-'' @ dashed c) colls else [])
          @ (if fs \<noteq> [] then [''filters''] else []))"
  by (simp add: generate_suggested_requirements_eq map_concat comp_def
      query_ids_eq openapi_requirement_def collection_requirement_def
      generate_format_requirement_def asyncapi_requirement_def filters_requirement_def
      dashed_def)

lemma distinct_map_Cons:
  "distinct (map (\<lambda>c. x # f c) cs) = distinct (map f cs)"
proof -
  have "map (\<lambda>c. x # f c) cs = map ((#) x) (map f cs)" by simp
  moreover have "inj_on ((#) x) (set (map f cs))" by (rule inj_onI) simp
  ultimately show ?thesis by (simp only: distinct_map) simp
qed

lemma query_ids_distinct:
  assumes "distinct (filter recognized (query_types c))"
  shows "distinct (query_ids c)"
proof -
  have "inj_on (\<lambda>qt. ''data-query-'' @ qt @ ''-'' @ dashed c)
          (set (filter recognized (query_types c)))"
  proof (rule inj_onI)
    fix q q'
    assume "q \<in> set (filter recognized (query_types c))"
      "q' \<in> set (filter recognized (query_types c))"
      "''data-query-'' @ q @ ''-'' @ dashed c = ''data-query-'' @ q' @ ''-'' @ dashed c"
    then have "recognized q" "recognized q'" "q @ ''-'' @ dashed c = q' @ ''-'' @ dashed c"
      by simp_all
    then show "q = q'" by (blast dest: query_type_dash_inj)
  qed
  with assms show ?thesis unfolding query_ids_def by (simp add: distinct_map)
qed

lemma query_ids_dashed:
  assumes "x \<in> set (query_ids c)" "x \<in> set (query_ids c')"
  shows "dashed c = dashed c'"
proof -
  from assms(1) obtain q where q: "recognized q" "x = ''data-query-'' @ q @ ''-'' @ dashed c"
    unfolding query_ids_def by auto
  from assms(2) obtain q' where q': "recognized q'" "x = ''data-query-'' @ q' @ ''-'' @ dashed c'"
    unfolding query_ids_def by auto
  from q(2) q'(2) have "q @ ''-'' @ dashed c = q' @ ''-'' @ dashed c'" by simp
  with q(1) q'(1) show ?thesis by (blast dest: query_type_dash_inj)
qed

lemma query_block_distinct:
  assumes "distinct (map dashed colls)"
    and "\<forall>c\<in>set colls. distinct (filter recognized (query_types c))"
  shows "distinct (concat (map query_ids colls))"
  using assms
proof (induction colls)
  case Nil
  show ?case by simp
next
  case (Cons c colls)
  have "set (query_ids c) \<inter> set (concat (map query_ids colls)) = {}"
  proof (rule ccontr)
    assume "set (query_ids c) \<inter> set (concat (map query_ids colls)) \<noteq> {}"
    then obtain x c' where "x \<in> set (query_ids c)" "c' \<in> set colls" "x \<in> set (query_ids c')"
      by auto
    then have "dashed c = dashed c'" "c' \<in> set colls" by (auto dest: query_ids_dashed)
    with Cons.prems(1) show False by auto
  qed
  with Cons show ?case by (simp add: query_ids_distinct)
qed

lemma query_ids_shape:
  "x \<in> set (query_ids c) \<Longrightarrow> \<exists>r. x = ''data-query-'' @ r"
  unfolding query_ids_def by auto

lemma ids_distinct_general:
  assumes "distinct (map dashed colls)" and "distinct (concat (map query_ids colls))"
  shows "distinct (''openapi'' # map (\<lambda>c. ''collection-'' @ dashed c) colls
          @ concat (map query_ids colls)
          @ map (\<lambda>c. ''output-format-'' @ dashed c) colls
          @ (if a then map (\<lambda>c. ''asyncapi-'' @ dashed c) colls else [])
          @ (if fs \<noteq> [] then [''filters''] else []))"
  using assms by (auto simp: distinct_map_Cons dest!: query_ids_shape)


subsection \<open>Distinct requirement ids\<close>

text \<open>
  Claim C6, amended. For every configuration in which the collection names are still
  pairwise distinct after underscores are replaced by dashes, and in which no
  collection lists the same recognized query type twice, requirement generation
  returns requirements with pairwise distinct ids.
\<close>

theorem requirement_ids_distinct:
  assumes "distinct (map dashed colls)"
    and "\<forall>c\<in>set colls. distinct (filter recognized (query_types c))"
  shows "\<exists>rs. generate_suggested_requirements colls a fs = Inr rs \<and> ids_distinct rs"
proof -
  have q: "distinct (concat (map query_ids colls))"
    using assms by (rule query_block_distinct)
  obtain rs where rs: "generate_suggested_requirements colls a fs = Inr rs"
    unfolding generate_suggested_requirements_eq by blast
  with requirement_ids_eq [of colls a fs] ids_distinct_general [OF assms(1) q, of a fs]
  have "ids_distinct rs" by (simp add: ids_distinct_def)
  with rs show ?thesis by blast
qed

theorem requirement_ids_distinct_witness:
  "distinct (map dashed [\<lparr>name = ''a_b'', query_types = [''items'', ''radius'', ''radius'', ''area''],
       formats = [''CSV'']\<rparr>, \<lparr>name = ''c'', query_types = [''items''], formats = []\<rparr>])
   \<and> distinct (filter recognized [''items'', ''radius'', ''radius'', ''area''])
   \<and> distinct (filter recognized [''items''])
   \<and> (\<exists>rs. generate_suggested_requirements
         [\<lparr>name = ''a_b'', query_types = [''items'', ''radius'', ''radius'', ''area''],
           formats = [''CSV'']\<rparr>, \<lparr>name = ''c'', query_types = [''items''], formats = []\<rparr>]
         True [] = Inr rs \<and> ids_distinct rs)"
proof -
  let ?cs = "[\<lparr>name = ''a_b'', query_types = [''items'', ''radius'', ''radius'', ''area''],
       formats = [''CSV'']\<rparr>, \<lparr>name = ''c'', query_types = [''items''], formats = []\<rparr>]"
  have h1: "distinct (map dashed ?cs)" by (simp add: dashed_def py_replace_char)
  have d1: "distinct (filter recognized [''items'', ''radius'', ''radius'', ''area''])"
    by (simp add: recognized_iff)
  have d2: "distinct (filter recognized [''items''])" by (simp add: recognized_iff)
  from d1 d2 have h2: "\<forall>c\<in>set ?cs. distinct (filter recognized (query_types c))"
    by simp
  from requirement_ids_distinct [OF h1 h2, of True "[]"] h1 d1 d2 show ?thesis by blast
qed

lemma ids_not_distinct:
  "on_ok (map id_r) x = Inr ids \<Longrightarrow> \<not> distinct ids \<Longrightarrow> on_ok ids_distinct x = Inr False"
  by (cases x) (auto simp: ids_distinct_def)

text \<open>
  Claim C6 as stated fails: a collection that lists \<open>items\<close> twice gets the id
  \<open>data-query-items-a\<close> twice, and the collections \<open>a_b\<close> and \<open>a-b\<close> both get the ids
  \<open>collection-a-b\<close> and \<open>output-format-a-b\<close>.
\<close>

theorem duplicate_ids_counterexample:
  "on_ok ids_distinct (generate_suggested_requirements
      [\<lparr>name = ''a'', query_types = [''items'', ''items''], formats = []\<rparr>] False []) = Inr False
   \<and> on_ok ids_distinct (generate_suggested_requirements
      [\<lparr>name = ''a_b'', query_types = [], formats = []\<rparr>,
       \<lparr>name = ''a-b'', query_types = [], formats = []\<rparr>] False []) = Inr False"
proof -
  have r: "recognized ''items''" by (simp add: recognized_iff)
  have 1: "on_ok (map id_r) (generate_suggested_requirements
      [\<lparr>name = ''a'', query_types = [''items'', ''items''], formats = []\<rparr>] False [])
     = Inr [''openapi'', ''collection-a'', ''data-query-items-a'', ''data-query-items-a'',
            ''output-format-a'']"
    unfolding requirement_ids_eq
    by (simp add: query_ids_def dashed_def py_replace_char r)
  have 2: "on_ok (map id_r) (generate_suggested_requirements
      [\<lparr>name = ''a_b'', query_types = [], formats = []\<rparr>,
       \<lparr>name = ''a-b'', query_types = [], formats = []\<rparr>] False [])
     = Inr [''openapi'', ''collection-a-b'', ''collection-a-b'',
            ''output-format-a-b'', ''output-format-a-b'']"
    unfolding requirement_ids_eq
    by (simp add: query_ids_def dashed_def py_replace_char)
  have 3: "\<not> distinct [''openapi'', ''collection-a'', ''data-query-items-a'',
      ''data-query-items-a'', ''output-format-a'']" by simp
  have 4: "\<not> distinct [''openapi'', ''collection-a-b'', ''collection-a-b'',
            ''output-format-a-b'', ''output-format-a-b'']" by simp
  from ids_not_distinct [OF 1 3] ids_not_distinct [OF 2 4] show ?thesis by blast
qed

subsection \<open>Format labels\<close>

text \<open>
  Claim C5, amended. In the output format requirement every label, in its place in
  the list, expands to its clauses and never to nothing: a label whose lowercase
  form is a key of \<open>FORMAT_REQUIREMENTS\<close> to the clause list of that key (so two
  labels with the same lowercase form expand alike), any other label to the single
  fallback clause naming the lowercase form of the label. The requirement of a
  collection is built from the name and formats of that collection alone and stands
  in the result of requirement generation whatever the other collections are.
\<close>

theorem format_labels_expanded:
  "parts (generate_format_requirement cn (fs1 @ f # fs2)) =
     (''Collection '' @ cn @ '' SHALL support the following formats:'')
       # concat (map label_clauses fs1) @ label_clauses f @ concat (map label_clauses fs2)
   \<and> label_clauses f \<noteq> []
   \<and> (map_of FORMAT_REQUIREMENTS (py_lower g) = Some clauses \<longrightarrow> label_clauses g = clauses)
   \<and> (map_of FORMAT_REQUIREMENTS (py_lower u) = None \<longrightarrow>
        label_clauses u = [''A format with the label '' @ py_lower u @ '' SHALL be supported''])
   \<and> (py_lower g = py_lower g' \<longrightarrow> label_clauses g = label_clauses g')
   \<and> (\<exists>pre post. generate_suggested_requirements (cs1 @ c # cs2) a fs
         = Inr (pre @ generate_format_requirement (name c) (formats c) # post)
       \<and> length post = length cs2 + (if a then length cs1 + 1 + length cs2 else 0)
           + (if fs = [] then 0 else 1))"
proof -
  have 1: "parts (generate_format_requirement cn (fs1 @ f # fs2)) =
     (''Collection '' @ cn @ '' SHALL support the following formats:'')
       # concat (map label_clauses fs1) @ label_clauses f @ concat (map label_clauses fs2)"
    by (simp add: format_requirement_parts)
  have 2: "label_clauses f \<noteq> []" by (rule label_clauses_nonempty)
  have 3: "map_of FORMAT_REQUIREMENTS (py_lower g) = Some clauses \<longrightarrow> label_clauses g = clauses"
    by (simp add: label_clauses_def)
  have 4: "map_of FORMAT_REQUIREMENTS (py_lower u) = None \<longrightarrow>
        label_clauses u = [''A format with the label '' @ py_lower u @ '' SHALL be supported'']"
    by (simp add: label_clauses_def)
  have 5: "py_lower g = py_lower g' \<longrightarrow> label_clauses g = label_clauses g'"
    unfolding label_clauses_def by (rule impI) (simp only:)
  from 1 2 3 4 5 format_requirement_in_synthesis [of cs1 c cs2 a fs] show ?thesis
    by blast
qed

theorem format_labels_expanded_witness:
  "map_of FORMAT_REQUIREMENTS (py_lower ''CSV'') =
      Some [''A format with the label csv SHALL provide CSV output with appropriate headers'']
   \<and> map_of FORMAT_REQUIREMENTS (py_lower ''xml'') = None
   \<and> py_lower ''CSV'' = py_lower ''csv''
   \<and> label_clauses ''CSV'' =
       [''A format with the label csv SHALL provide CSV output with appropriate headers'']
   \<and> label_clauses ''xml'' = [''A format with the label xml SHALL be supported'']
   \<and> label_clauses ''CSV'' = label_clauses ''csv''
   \<and> parts (generate_format_requirement ''stations'' [''CSV'', ''xml'']) =
       [''Collection stations SHALL support the following formats:'',
        ''A format with the label csv SHALL provide CSV output with appropriate headers'',
        ''A format with the label xml SHALL be supported'']"
proof -
  have l1: "py_lower ''CSV'' = ''csv''" by (simp add: py_lower_def lower_char_def)
  have l2: "py_lower ''csv'' = ''csv''" by (simp add: py_lower_def lower_char_def)
  have l3: "py_lower ''xml'' = ''xml''" by (simp add: py_lower_def lower_char_def)
  have h1: "map_of FORMAT_REQUIREMENTS (py_lower ''CSV'') =
      Some [''A format with the label csv SHALL provide CSV output with appropriate headers'']"
    unfolding l1 by (simp add: FORMAT_REQUIREMENTS_def)
  have h2: "map_of FORMAT_REQUIREMENTS (py_lower ''xml'') = None"
    unfolding l3 by (simp add: FORMAT_REQUIREMENTS_def)
  have h3: "py_lower ''CSV'' = py_lower ''csv''" by (simp only: l1 l2)
  note t = format_labels_expanded [of "''stations''" "[''CSV'']" "''xml''" "[]" "''CSV''"
      "[''A format with the label csv SHALL provide CSV output with appropriate headers'']"
      "''xml''" "''csv''" "[]" "\<lparr>name = ''stations'', query_types = [], formats = []\<rparr>" "[]"
      False "[]"]
  from t h1 have c1: "label_clauses ''CSV'' =
      [''A format with the label csv SHALL provide CSV output with appropriate headers'']"
    by blast
  from t h2 have "label_clauses ''xml'' =
      [''A format with the label '' @ py_lower ''xml'' @ '' SHALL be supported'']" by blast
  then have c2: "label_clauses ''xml'' = [''A format with the label xml SHALL be supported'']"
    unfolding l3 by simp
  from t h3 have c3: "label_clauses ''CSV'' = label_clauses ''csv''" by blast
  from t have "parts (generate_format_requirement ''stations'' ([''CSV''] @ ''xml'' # [])) =
      (''Collection '' @ ''stations'' @ '' SHALL support the following formats:'')
       # concat (map label_clauses [''CSV'']) @ label_clauses ''xml''
         @ concat (map label_clauses [])" by blast
  then have c4: "parts (generate_format_requirement ''stations'' [''CSV'', ''xml'']) =
       [''Collection stations SHALL support the following formats:'',
        ''A format with the label csv SHALL provide CSV output with appropriate headers'',
        ''A format with the label xml SHALL be supported'']"
    by (simp add: c1 c2)
  from h1 h2 h3 c1 c2 c3 c4 show ?thesis by blast
qed

text \<open>
  Claim C5 as stated fails for a label that is not lowercase: for the unrecognized
  label \<open>XML\<close> the fallback clause names \<open>xml\<close>, and no part of the requirement
  contains the label \<open>XML\<close> as given.
\<close>

theorem uppercase_label_counterexample:
  "parts (generate_format_requirement ''stations'' [''XML'']) =
     [''Collection stations SHALL support the following formats:'',
      ''A format with the label xml SHALL be supported'']
   \<and> \<not> list_ex (py_in ''XML'') (parts (generate_format_requirement ''stations'' [''XML'']))"
proof -
  have l: "py_lower ''XML'' = ''xml''" by (simp add: py_lower_def lower_char_def)
  have c: "label_clauses ''XML'' = [''A format with the label xml SHALL be supported'']"
    by (simp add: label_clauses_def l FORMAT_REQUIREMENTS_def)
  have p: "parts (generate_format_requirement ''stations'' [''XML'']) =
     [''Collection stations SHALL support the following formats:'',
      ''A format with the label xml SHALL be supported'']"
    by (simp add: format_requirement_parts c)
  show ?thesis unfolding p by simp
qed

subsection \<open>Test steps of a requirement whose id contains a query pattern\<close>

text \<open>
  Claim C4 at the requirement that \<open>generate_suggested_requirements\<close> builds for the
  collection metadata of a collection named \<open>data_query_items_x\<close>. Its id
  \<open>collection-data-query-items-x\<close> does not start with \<open>data-query-\<close>, and the token
  before its first dash is \<open>collection\<close>; the test nevertheless gets the five steps of
  the \<open>items\<close> query type, for a collection \<open>x\<close>.
\<close>

theorem collection_requirement_gets_items_steps:
  "generate_suggested_tests
     [collection_requirement \<lparr>name = ''data_query_items_x'', query_types = [], formats = []\<rparr>]
   = Inr [\<lparr>id_t = ''collection-data-query-items-x'', req_id = ''collection-data-query-items-x'',
           steps = [''Send GET request to /collections/x/items'',
                    ''Verify response is valid GeoJSON FeatureCollection'',
                    ''Verify response contains required properties'',
                    ''Send GET request to /collections/x/items/{featureId}'',
                    ''Verify response is valid GeoJSON Feature'']\<rparr>]"
  by (simp add: collection_requirement_def py_replace_char generate_suggested_tests_def
      test_for_def QUERY_TYPE_KEYS_def QUERY_TYPE_TEST_STEPS_def py_split_def py_index_def
      generate_query_type_test_def)

lemma field_Some [simp]: "field (Some x) = Inr x" by (simp add: field_def)
lemma field_None [simp]: "field None = Inl KeyError" by (simp add: field_def)

subsection \<open>Paths of an items collection\<close>

text \<open>
  Claim C7, amended. For a configuration of one collection whose query type list is
  exactly \<open>items\<close>, \<open>create_openapi\<close> produces exactly three path items, the
  collection metadata path \<open>/collections/{name}\<close> followed by
  \<open>/collections/{name}/items\<close> and \<open>/collections/{name}/items/{featureId}\<close>, and
  exactly one schema entry; the formats of the collection are not read.
\<close>

theorem items_collection_paths:
  "on_ok path_keys (create_openapi base_name
       [\<lparr>c_name = Some cn, c_query_types = Some [''items''], c_formats = fmts\<rparr>] ps ia)
     = Inr [''/collections/'' @ cn, ''/collections/'' @ cn @ ''/items'',
            ''/collections/'' @ cn @ ''/items/{featureId}'']
   \<and> on_ok path_count (create_openapi base_name
       [\<lparr>c_name = Some cn, c_query_types = Some [''items''], c_formats = fmts\<rparr>] ps ia)
     = Inr 3
   \<and> on_ok schema_keys (create_openapi base_name
       [\<lparr>c_name = Some cn, c_query_types = Some [''items''], c_formats = fmts\<rparr>] ps ia)
     = Inr [py_replace ''_'' [] (py_title cn) @ ''Feature'']"
  by (simp add: create_openapi_def add_collection_def add_query_type_def path_keys_def
      path_count_def schema_keys_def)

text \<open>
  Claim C7 as stated fails: for the collection \<open>water_gauge\<close> with the query type
  \<open>items\<close> the document has three path items, not two.
\<close>

theorem items_collection_paths_counterexample:
  "on_ok path_count (create_openapi ''water_gauge''
       [\<lparr>c_name = Some ''water_gauge'', c_query_types = Some [''items''],
         c_formats = Some [''GeoJSON'']\<rparr>] [] False) = Inr 3
   \<and> on_ok path_keys (create_openapi ''water_gauge''
       [\<lparr>c_name = Some ''water_gauge'', c_query_types = Some [''items''],
         c_formats = Some [''GeoJSON'']\<rparr>] [] False)
     = Inr [''/collections/water_gauge'', ''/collections/water_gauge/items'',
            ''/collections/water_gauge/items/{featureId}'']"
  by (simp add: create_openapi_def add_collection_def add_query_type_def path_keys_def
      path_count_def)



subsection \<open>Anchor ids\<close>














subsection \<open>Runs on an incomplete configuration\<close>





end
